theory Spec2Isabelle
  imports Main "HOL-Library.Word"
begin

section \<open>The 32-bit EL1 capability probe (utils/aarch64\_32\_bit\_el1\_supported.c)\<close>

text \<open>
  The program is one \<open>main\<close> function that calls \<open>open\<close>, \<open>ioctl\<close>, \<open>close\<close> and
  \<open>perror\<close> and reads \<open>errno\<close>. The embedding passes the process state (the value of
  \<open>errno\<close> and the list of calls and writes made so far) through these calls by hand;
  what the kernel and the C library answer on one run is a record, a parameter of \<open>main\<close>.
\<close>

subsection \<open>C data\<close>

text \<open>A C \<open>int\<close>: 32 bits, two's complement. \<open>x <s y\<close> is the signed comparison.\<close>

type_synonym cint = "32 word"

text \<open>
  The constants of the system headers that the program passes on. Their numeric values
  play no part in the program, so they stay symbolic.
\<close>

datatype oflag = O_RDONLY | O_WRONLY | O_RDWR

datatype ioctl_request = KVM_CHECK_EXTENSION

datatype kvm_cap = KVM_CAP_ARM_EL1_32BIT

datatype stream = Stdout | Stderr

text \<open>What the process does that is visible from outside, in the order it does it.\<close>

datatype event =
    Open_call string oflag
  | Ioctl_call cint ioctl_request kvm_cap
  | Close_call cint
  | Output stream string

subsection \<open>The operating system on one run\<close>

text \<open>
  Every call is made at most once on a run, so the answers of the system are one value per
  call: the value returned, and the value the call stores in \<open>errno\<close> if it stores one
  (\<open>None\<close>: \<open>errno\<close> is left alone). \<open>perror\<close> returns nothing, but it writes to a
  stream and that can fail, after which \<open>errno\<close> holds the reason. \<open>strerror\<close> is the C
  library's table of messages, which \<open>perror\<close> prints from.
\<close>

record os =
  open_ret :: cint
  open_errno :: "cint option"
  ioctl_ret :: cint
  ioctl_errno :: "cint option"
  close_ret :: cint
  close_errno :: "cint option"
  perror_errno :: "cint option"
  strerror :: "cint \<Rightarrow> string"

record proc =
  errno :: cint
  trace :: "event list"

text \<open>At program startup \<open>errno\<close> is zero and nothing has happened yet.\<close>

definition startup :: proc where
  "startup = \<lparr>errno = 0, trace = []\<rparr>"

definition store_errno :: "cint option \<Rightarrow> proc \<Rightarrow> proc" where
  "store_errno eo s = (case eo of None \<Rightarrow> s | Some e \<Rightarrow> s\<lparr>errno := e\<rparr>)"

definition log_event :: "event \<Rightarrow> proc \<Rightarrow> proc" where
  "log_event ev s = s\<lparr>trace := trace s @ [ev]\<rparr>"

definition c_open :: "os \<Rightarrow> string \<Rightarrow> oflag \<Rightarrow> proc \<Rightarrow> cint \<times> proc" where
  "c_open w path fl s =
     (open_ret w, store_errno (open_errno w) (log_event (Open_call path fl) s))"

definition c_ioctl :: "os \<Rightarrow> cint \<Rightarrow> ioctl_request \<Rightarrow> kvm_cap \<Rightarrow> proc \<Rightarrow> cint \<times> proc" where
  "c_ioctl w fd req arg s =
     (ioctl_ret w, store_errno (ioctl_errno w) (log_event (Ioctl_call fd req arg) s))"

definition c_close :: "os \<Rightarrow> cint \<Rightarrow> proc \<Rightarrow> cint \<times> proc" where
  "c_close w fd s =
     (close_ret w, store_errno (close_errno w) (log_event (Close_call fd) s))"

text \<open>
  \<open>perror(msg)\<close> writes \<open>msg\<close>, a colon and a blank, the message for the current value of
  \<open>errno\<close>, and a newline, to standard error.
\<close>

definition perror :: "os \<Rightarrow> string \<Rightarrow> proc \<Rightarrow> proc" where
  "perror w msg s =
     store_errno (perror_errno w)
       (log_event (Output Stderr (msg @ '': '' @ strerror w (errno s) @ [CHR 0x0A])) s)"

text \<open>C's \<open>!\<close> on an \<open>int\<close>.\<close>

definition c_not :: "cint \<Rightarrow> cint" where
  "c_not x = (if x = 0 then 1 else 0)"

subsection \<open>main\<close>

text \<open>
  \<^verbatim>\<open>
  fd = open("/dev/kvm", O_RDWR);
  if (fd < 0) { perror("Failed to open /dev/kvm"); return -errno; }
  ret = ioctl(fd, KVM_CHECK_EXTENSION, KVM_CAP_ARM_EL1_32BIT);
  if (ret < 0) { perror("Error checking /dev/kvm for 32-bit EL1 support"); ret = 0; }
  close(fd);
  return !ret;
  \<close>
  The result is the value \<open>main\<close> returns, with the state of the process at that moment.
\<close>

definition main :: "os \<Rightarrow> proc \<Rightarrow> cint \<times> proc" where
  "main w s0 =
     (let (fd, s1) = c_open w ''/dev/kvm'' O_RDWR s0 in
      if fd <s 0 then
        (let s2 = perror w ''Failed to open /dev/kvm'' s1
         in (- errno s2, s2))
      else
        (let (ret, s2) = c_ioctl w fd KVM_CHECK_EXTENSION KVM_CAP_ARM_EL1_32BIT s1;
             (ret, s3) =
               (if ret <s 0
                then (0, perror w ''Error checking /dev/kvm for 32-bit EL1 support'' s2)
                else (ret, s2));
             (closed, s4) = c_close w fd s3
         in (c_not ret, s4)))"

subsection \<open>Observations of a run\<close>

text \<open>
  The exit status is the \<open>int\<close> that \<open>main\<close> returns, which the C runtime hands to
  \<open>exit\<close>. How the kernel shortens it for a waiting parent is not part of the program.
\<close>

definition exit_status :: "os \<Rightarrow> cint" where
  "exit_status w = fst (main w startup)"

definition final :: "os \<Rightarrow> proc" where
  "final w = snd (main w startup)"

fun written :: "stream \<Rightarrow> event list \<Rightarrow> string list" where
  "written f [] = []"
| "written f (Output g txt # evs) = (if g = f then txt # written f evs else written f evs)"
| "written f (ev # evs) = written f evs"

fun is_output :: "event \<Rightarrow> bool" where
  "is_output (Output g txt) = True"
| "is_output ev = False"

fun closed_fds :: "event list \<Rightarrow> cint list" where
  "closed_fds [] = []"
| "closed_fds (Close_call fd # evs) = fd # closed_fds evs"
| "closed_fds (ev # evs) = closed_fds evs"

fun is_ioctl :: "event \<Rightarrow> bool" where
  "is_ioctl (Ioctl_call fd req arg) = True"
| "is_ioctl ev = False"

definition calls :: "event list \<Rightarrow> event list" where
  "calls evs = filter (\<lambda>ev. \<not> is_output ev) evs"

text \<open>The two diagnostics, as \<open>perror\<close> prints them when \<open>errno\<close> is \<open>e\<close>.\<close>

definition open_diag :: "os \<Rightarrow> cint \<Rightarrow> string" where
  "open_diag w e = ''Failed to open /dev/kvm'' @ '': '' @ strerror w e @ [CHR 0x0A]"

definition query_diag :: "os \<Rightarrow> cint \<Rightarrow> string" where
  "query_diag w e =
     ''Error checking /dev/kvm for 32-bit EL1 support'' @ '': '' @ strerror w e @ [CHR 0x0A]"

text \<open>The value of \<open>errno\<close> after a call that stores \<open>eo\<close>, when it was \<open>e0\<close> before.\<close>

definition errno_after :: "cint option \<Rightarrow> cint \<Rightarrow> cint" where
  "errno_after eo e0 = (case eo of None \<Rightarrow> e0 | Some e \<Rightarrow> e)"

subsection \<open>What POSIX promises about \<open>errno\<close>\<close>

text \<open>
  Error numbers are positive \<open>int\<close> values, and no library function stores zero in
  \<open>errno\<close>; a call that fails stores the error number there.
\<close>

definition error_number :: "cint \<Rightarrow> bool" where
  "error_number e \<longleftrightarrow> 0 <s e"

definition stores_error :: "cint option \<Rightarrow> bool" where
  "stores_error eo = (case eo of None \<Rightarrow> False | Some e \<Rightarrow> error_number e)"

definition keeps_or_stores_error :: "cint option \<Rightarrow> bool" where
  "keeps_or_stores_error eo = (case eo of None \<Rightarrow> True | Some e \<Rightarrow> error_number e)"

definition posix_os :: "os \<Rightarrow> bool" where
  "posix_os w \<longleftrightarrow>
     (if open_ret w <s 0 then stores_error (open_errno w)
      else keeps_or_stores_error (open_errno w)) \<and>
     (if ioctl_ret w <s 0 then stores_error (ioctl_errno w)
      else keeps_or_stores_error (ioctl_errno w)) \<and>
     (if close_ret w <s 0 then stores_error (close_errno w)
      else keeps_or_stores_error (close_errno w)) \<and>
     keeps_or_stores_error (perror_errno w)"

subsection \<open>Sample hosts\<close>

text \<open>
  Concrete runs to evaluate the program on. The message table is a fragment of the Linux
  one (\<open>ENOENT\<close> is 2, \<open>EBADF\<close> 9, \<open>EACCES\<close> 13, \<open>EINVAL\<close> 22, \<open>ENOTTY\<close> 25); file descriptor 3 is
  the first free one of a process started with the three standard streams.
\<close>

definition messages :: "cint \<Rightarrow> string" where
  "messages e =
     (if e = 2 then ''No such file or directory''
      else if e = 9 then ''Bad file descriptor''
      else if e = 13 then ''Permission denied''
      else if e = 22 then ''Invalid argument''
      else if e = 25 then ''Inappropriate ioctl for device''
      else ''Unknown error'')"

definition host :: "cint \<Rightarrow> cint option \<Rightarrow> cint \<Rightarrow> cint option \<Rightarrow> os" where
  "host fd oe r ie =
     \<lparr>open_ret = fd, open_errno = oe, ioctl_ret = r, ioctl_errno = ie,
      close_ret = 0, close_errno = None, perror_errno = None, strerror = messages\<rparr>"

definition host_supported :: os where
  "host_supported = host 3 None 1 None"

definition host_unsupported :: os where
  "host_unsupported = host 3 None 0 None"

definition host_no_device :: os where
  "host_no_device = host (- 1) (Some 2) 0 None"

definition host_query_fails :: os where
  "host_query_fails = host 3 None (- 1) (Some 25)"

text \<open>
  The host without the device again, on a run where \<open>perror\<close> itself leaves \<open>EINVAL\<close> in
  \<open>errno\<close> while it prints, as the C library can when standard error is open for writing
  only.
\<close>

definition host_no_device_stderr_wronly :: os where
  "host_no_device_stderr_wronly = host_no_device\<lparr>perror_errno := Some 22\<rparr>"

lemmas host_defs =
  host_supported_def host_unsupported_def host_no_device_def host_query_fails_def
  host_no_device_stderr_wronly_def host_def

lemmas posix_os_defs =
  posix_os_def stores_error_def keeps_or_stores_error_def error_number_def

section \<open>The three paths through main\<close>

lemma main_open_failed:
  assumes "open_ret w <s 0"
  shows "main w s =
    (- errno_after (perror_errno w) (errno_after (open_errno w) (errno s)),
     \<lparr>errno = errno_after (perror_errno w) (errno_after (open_errno w) (errno s)),
      trace = trace s @ [Open_call ''/dev/kvm'' O_RDWR,
                         Output Stderr (open_diag w (errno_after (open_errno w) (errno s)))]\<rparr>)"
  using assms
  by (simp add: main_def c_open_def perror_def store_errno_def log_event_def
      errno_after_def open_diag_def split: option.splits)

lemma main_query_failed:
  assumes "\<not> open_ret w <s 0" and "ioctl_ret w <s 0"
  shows "main w s =
    (1,
     \<lparr>errno = errno_after (close_errno w) (errno_after (perror_errno w)
                (errno_after (ioctl_errno w) (errno_after (open_errno w) (errno s)))),
      trace = trace s @ [Open_call ''/dev/kvm'' O_RDWR,
                         Ioctl_call (open_ret w) KVM_CHECK_EXTENSION KVM_CAP_ARM_EL1_32BIT,
                         Output Stderr (query_diag w
                           (errno_after (ioctl_errno w) (errno_after (open_errno w) (errno s)))),
                         Close_call (open_ret w)]\<rparr>)"
  using assms
  by (simp add: main_def c_open_def c_ioctl_def c_close_def perror_def store_errno_def
      log_event_def errno_after_def query_diag_def c_not_def split: option.splits)

lemma main_query_answered:
  assumes "\<not> open_ret w <s 0" and "\<not> ioctl_ret w <s 0"
  shows "main w s =
    (c_not (ioctl_ret w),
     \<lparr>errno = errno_after (close_errno w)
                (errno_after (ioctl_errno w) (errno_after (open_errno w) (errno s))),
      trace = trace s @ [Open_call ''/dev/kvm'' O_RDWR,
                         Ioctl_call (open_ret w) KVM_CHECK_EXTENSION KVM_CAP_ARM_EL1_32BIT,
                         Close_call (open_ret w)]\<rparr>)"
  using assms
  by (simp add: main_def c_open_def c_ioctl_def c_close_def store_errno_def
      log_event_def errno_after_def split: option.splits)

subsection \<open>Signed arithmetic on \<open>int\<close>\<close>

lemma neg_error_number:
  fixes e :: cint
  assumes "error_number e"
  shows "- e <s 0"
proof -
  from assms have pos: "0 < sint e"
    by (simp add: error_number_def word_sless_alt)
  have "sint e < 2 ^ 31"
    using sint_lt [of e] by simp
  with pos have "sint (- e) = - sint e"
    by (simp add: sint_word_ariths signed_take_bit_int_eq_self)
  with pos show ?thesis
    by (simp add: word_sless_alt)
qed

lemma negative_not_zero: "(x::cint) <s 0 \<Longrightarrow> x \<noteq> 0"
  by (auto simp: word_sless_alt)

lemma negative_not_one: "(x::cint) <s 0 \<Longrightarrow> x \<noteq> 1"
  by (auto simp: word_sless_alt)

lemma positive_iff: "0 <s (x::cint) \<longleftrightarrow> \<not> x <s 0 \<and> x \<noteq> 0"
proof -
  have "sint x = 0 \<longleftrightarrow> x = 0"
    by (rule signed_eq_0_iff)
  then show ?thesis
    by (auto simp: word_sless_alt)
qed

lemma c_not_eq_0: "c_not x = 0 \<longleftrightarrow> x \<noteq> 0"
  by (simp add: c_not_def)

lemma c_not_eq_1: "c_not x = 1 \<longleftrightarrow> x = 0"
  by (simp add: c_not_def)

lemma c_not_not_negative: "\<not> c_not x <s 0"
  by (simp add: c_not_def word_sless_alt)

subsection \<open>The run from startup\<close>

lemma exit_open_failed:
  "open_ret w <s 0 \<Longrightarrow>
   exit_status w = - errno_after (perror_errno w) (errno_after (open_errno w) 0)"
  by (simp add: exit_status_def main_open_failed startup_def)

lemma exit_query_failed:
  "\<not> open_ret w <s 0 \<Longrightarrow> ioctl_ret w <s 0 \<Longrightarrow> exit_status w = 1"
  by (simp add: exit_status_def main_query_failed)

lemma exit_query_answered:
  "\<not> open_ret w <s 0 \<Longrightarrow> \<not> ioctl_ret w <s 0 \<Longrightarrow> exit_status w = c_not (ioctl_ret w)"
  by (simp add: exit_status_def main_query_answered)

lemma errno_open_failed:
  "open_ret w <s 0 \<Longrightarrow>
   errno (final w) = errno_after (perror_errno w) (errno_after (open_errno w) 0)"
  by (simp add: final_def main_open_failed startup_def)

lemma trace_open_failed:
  "open_ret w <s 0 \<Longrightarrow>
   trace (final w) =
     [Open_call ''/dev/kvm'' O_RDWR,
      Output Stderr (open_diag w (errno_after (open_errno w) 0))]"
  by (simp add: final_def main_open_failed startup_def)

lemma trace_query_failed:
  "\<not> open_ret w <s 0 \<Longrightarrow> ioctl_ret w <s 0 \<Longrightarrow>
   trace (final w) =
     [Open_call ''/dev/kvm'' O_RDWR,
      Ioctl_call (open_ret w) KVM_CHECK_EXTENSION KVM_CAP_ARM_EL1_32BIT,
      Output Stderr (query_diag w (errno_after (ioctl_errno w) (errno_after (open_errno w) 0))),
      Close_call (open_ret w)]"
  by (simp add: final_def main_query_failed startup_def)

lemma trace_query_answered:
  "\<not> open_ret w <s 0 \<Longrightarrow> \<not> ioctl_ret w <s 0 \<Longrightarrow>
   trace (final w) =
     [Open_call ''/dev/kvm'' O_RDWR,
      Ioctl_call (open_ret w) KVM_CHECK_EXTENSION KVM_CAP_ARM_EL1_32BIT,
      Close_call (open_ret w)]"
  by (simp add: final_def main_query_answered startup_def)

lemma posix_open_errno:
  assumes "posix_os w" and "open_ret w <s 0"
  shows "error_number (errno_after (perror_errno w) (errno_after (open_errno w) 0))"
  using assms
  by (auto simp: posix_os_def stores_error_def keeps_or_stores_error_def errno_after_def
      split: option.splits)

lemma exit_status_cases:
  "exit_status w =
     (if open_ret w <s 0 then - errno_after (perror_errno w) (errno_after (open_errno w) 0)
      else if ioctl_ret w <s 0 then 1
      else c_not (ioctl_ret w))"
  by (simp add: exit_open_failed exit_query_failed exit_query_answered)

lemma trace_cases:
  "trace (final w) =
     (if open_ret w <s 0 then
        [Open_call ''/dev/kvm'' O_RDWR,
         Output Stderr (open_diag w (errno_after (open_errno w) 0))]
      else if ioctl_ret w <s 0 then
        [Open_call ''/dev/kvm'' O_RDWR,
         Ioctl_call (open_ret w) KVM_CHECK_EXTENSION KVM_CAP_ARM_EL1_32BIT,
         Output Stderr
           (query_diag w (errno_after (ioctl_errno w) (errno_after (open_errno w) 0))),
         Close_call (open_ret w)]
      else
        [Open_call ''/dev/kvm'' O_RDWR,
         Ioctl_call (open_ret w) KVM_CHECK_EXTENSION KVM_CAP_ARM_EL1_32BIT,
         Close_call (open_ret w)])"
  by (simp add: trace_open_failed trace_query_failed trace_query_answered)

section \<open>Exit status\<close>

text \<open>
  C1. When the open succeeds and the capability query returns 0 or 1, the exit status is
  the logical negation of that result: 0 for the result 1 (supported), 1 for the result 0
  (unsupported).
\<close>

theorem exit_negates_capability:
  assumes "\<not> open_ret w <s 0" and "ioctl_ret w = 0 \<or> ioctl_ret w = 1"
  shows "exit_status w = c_not (ioctl_ret w) \<and>
         exit_status w = (if ioctl_ret w = 1 then 0 else 1)"
proof -
  from assms(2) have "\<not> ioctl_ret w <s 0"
    by (auto simp: word_sless_alt)
  with assms(1) have "exit_status w = c_not (ioctl_ret w)"
    by (rule exit_query_answered)
  with assms(2) show ?thesis
    by (auto simp: c_not_def)
qed

theorem exit_negates_capability_witness:
  "(\<not> open_ret host_supported <s 0 \<and> ioctl_ret host_supported = 1 \<and>
    exit_status host_supported = 0) \<and>
   (\<not> open_ret host_unsupported <s 0 \<and> ioctl_ret host_unsupported = 0 \<and>
    exit_status host_unsupported = 1)"
proof -
  have s1: "\<not> open_ret host_supported <s 0" and s2: "ioctl_ret host_supported = 1"
    by (simp_all add: host_defs word_sless_alt)
  have u1: "\<not> open_ret host_unsupported <s 0" and u2: "ioctl_ret host_unsupported = 0"
    by (simp_all add: host_defs word_sless_alt)
  from exit_negates_capability [of host_supported] s1 s2
  have "exit_status host_supported = 0" by (simp add: c_not_def)
  moreover from exit_negates_capability [of host_unsupported] u1 u2
  have "exit_status host_unsupported = 1" by (simp add: c_not_def)
  ultimately show ?thesis
    using s1 s2 u1 u2 by simp
qed

text \<open>
  C9. When the open succeeds and the capability query returns a result that is not
  negative, the exit status is 0 for every result other than 0 and 1 only for the result
  0; a result greater than 1 gives exit status 0, as the result 1 does.
\<close>

theorem exit_of_any_answer:
  assumes "\<not> open_ret w <s 0" and "\<not> ioctl_ret w <s 0"
  shows "exit_status w = (if ioctl_ret w = 0 then 1 else 0) \<and>
         (1 <s ioctl_ret w \<longrightarrow> exit_status w = 0)"
proof -
  from assms have "exit_status w = c_not (ioctl_ret w)"
    by (rule exit_query_answered)
  then show ?thesis
    by (auto simp: c_not_def word_sless_alt)
qed

theorem exit_of_any_answer_witness:
  "\<not> open_ret (host 3 None 2 None) <s 0 \<and> \<not> ioctl_ret (host 3 None 2 None) <s 0 \<and>
   1 <s ioctl_ret (host 3 None 2 None) \<and> exit_status (host 3 None 2 None) = 0"
proof -
  have h1: "\<not> open_ret (host 3 None 2 None) <s 0"
    and h2: "\<not> ioctl_ret (host 3 None 2 None) <s 0"
    and h3: "1 <s ioctl_ret (host 3 None 2 None)"
    by (simp_all add: host_def word_sless_alt)
  from exit_of_any_answer [OF h1 h2] h3
  have "exit_status (host 3 None 2 None) = 0" by blast
  with h1 h2 h3 show ?thesis by simp
qed

text \<open>
  The path on which the open fails: one diagnostic goes to standard error, the capability
  query is never made, and \<open>main\<close> returns the negation of the value \<open>errno\<close> holds
  after \<open>perror\<close> has run. That value is an error number, so the status is not zero.
\<close>

lemma open_failure_path:
  assumes "open_ret w <s 0" and "posix_os w"
  shows "exit_status w = - errno (final w) \<and>
         errno (final w) = errno_after (perror_errno w) (errno_after (open_errno w) 0) \<and>
         error_number (errno (final w)) \<and>
         exit_status w \<noteq> 0 \<and>
         written Stderr (trace (final w)) = [open_diag w (errno_after (open_errno w) 0)] \<and>
         filter is_ioctl (trace (final w)) = []"
proof -
  let ?e = "errno_after (perror_errno w) (errno_after (open_errno w) 0)"
  have st: "exit_status w = - ?e"
    using assms(1) by (rule exit_open_failed)
  have er: "errno (final w) = ?e"
    using assms(1) by (rule errno_open_failed)
  have en: "error_number ?e"
    using assms(2) assms(1) by (rule posix_open_errno)
  then have "- ?e <s 0"
    by (rule neg_error_number)
  then have nz: "- ?e \<noteq> 0"
    by (rule negative_not_zero)
  have tr: "trace (final w) =
     [Open_call ''/dev/kvm'' O_RDWR,
      Output Stderr (open_diag w (errno_after (open_errno w) 0))]"
    using assms(1) by (rule trace_open_failed)
  from st er en nz show ?thesis
    by (simp add: tr)
qed

text \<open>
  C2. When the open fails, the program is to write a diagnostic to standard error, never
  make the capability query, and exit with the negated error code of the failed open. The
  source reads \<open>errno\<close> only after it has called \<open>perror\<close>. On the run below the open
  fails with \<open>ENOENT\<close> (2) and \<open>perror\<close> leaves \<open>EINVAL\<close> (22) in \<open>errno\<close>: the
  diagnostic names the error of the open and no query is made, but the status is \<open>-22\<close>,
  not \<open>-2\<close>.
\<close>

theorem open_failure_status_not_open_error:
  "open_ret host_no_device_stderr_wronly <s 0 \<and>
   posix_os host_no_device_stderr_wronly \<and>
   open_errno host_no_device_stderr_wronly = Some 2 \<and>
   exit_status host_no_device_stderr_wronly = - 22 \<and>
   exit_status host_no_device_stderr_wronly \<noteq> - 2 \<and>
   written Stderr (trace (final host_no_device_stderr_wronly)) =
     [''Failed to open /dev/kvm: No such file or directory'' @ [CHR 0x0A]] \<and>
   filter is_ioctl (trace (final host_no_device_stderr_wronly)) = []"
proof -
  have failed: "open_ret host_no_device_stderr_wronly <s 0"
    by (simp add: host_defs word_sless_alt)
  have posix: "posix_os host_no_device_stderr_wronly"
    by (simp add: host_defs posix_os_defs word_sless_alt)
  have stored: "open_errno host_no_device_stderr_wronly = Some 2"
    by (simp add: host_defs)
  have "exit_status host_no_device_stderr_wronly =
          - errno_after (perror_errno host_no_device_stderr_wronly)
              (errno_after (open_errno host_no_device_stderr_wronly) 0)"
    using failed by (rule exit_open_failed)
  then have status: "exit_status host_no_device_stderr_wronly = - 22"
    by (simp add: host_defs errno_after_def)
  have differs: "- 22 \<noteq> (- 2 :: cint)"
    by simp
  have "trace (final host_no_device_stderr_wronly) =
     [Open_call ''/dev/kvm'' O_RDWR,
      Output Stderr (open_diag host_no_device_stderr_wronly
        (errno_after (open_errno host_no_device_stderr_wronly) 0))]"
    using failed by (rule trace_open_failed)
  then have tr: "trace (final host_no_device_stderr_wronly) =
     [Open_call ''/dev/kvm'' O_RDWR,
      Output Stderr (''Failed to open /dev/kvm: No such file or directory'' @ [CHR 0x0A])]"
    by (simp add: host_defs errno_after_def open_diag_def messages_def)
  from failed posix stored status differs show ?thesis
    by (simp add: tr)
qed

text \<open>
  C3. When the open succeeds and the capability query returns a negative value, the
  program goes on: it writes a diagnostic to standard error, takes 0 (unsupported) as the
  result, closes the descriptor, and returns 1, which is not a negated error number.
\<close>

theorem query_failure_recovered:
  assumes "\<not> open_ret w <s 0" and "ioctl_ret w <s 0"
  shows "exit_status w = 1 \<and> exit_status w = c_not 0 \<and> \<not> exit_status w <s 0 \<and>
         trace (final w) =
           [Open_call ''/dev/kvm'' O_RDWR,
            Ioctl_call (open_ret w) KVM_CHECK_EXTENSION KVM_CAP_ARM_EL1_32BIT,
            Output Stderr
              (query_diag w (errno_after (ioctl_errno w) (errno_after (open_errno w) 0))),
            Close_call (open_ret w)] \<and>
         written Stderr (trace (final w)) =
           [query_diag w (errno_after (ioctl_errno w) (errno_after (open_errno w) 0))] \<and>
         closed_fds (trace (final w)) = [open_ret w]"
proof -
  have st: "exit_status w = 1"
    using assms by (rule exit_query_failed)
  have tr: "trace (final w) =
     [Open_call ''/dev/kvm'' O_RDWR,
      Ioctl_call (open_ret w) KVM_CHECK_EXTENSION KVM_CAP_ARM_EL1_32BIT,
      Output Stderr (query_diag w (errno_after (ioctl_errno w) (errno_after (open_errno w) 0))),
      Close_call (open_ret w)]"
    using assms by (rule trace_query_failed)
  show ?thesis
    by (simp add: st tr c_not_def word_sless_alt)
qed

theorem query_failure_recovered_witness:
  "\<not> open_ret host_query_fails <s 0 \<and> ioctl_ret host_query_fails <s 0 \<and>
   exit_status host_query_fails = 1 \<and>
   written Stderr (trace (final host_query_fails)) =
     [''Error checking /dev/kvm for 32-bit EL1 support: Inappropriate ioctl for device''
        @ [CHR 0x0A]] \<and>
   closed_fds (trace (final host_query_fails)) = [3]"
proof -
  have h1: "\<not> open_ret host_query_fails <s 0"
    by (simp add: host_defs word_sless_alt)
  have h2: "ioctl_ret host_query_fails <s 0"
    by (simp add: host_defs word_sless_alt)
  note t = query_failure_recovered [OF h1 h2]
  from t have "exit_status host_query_fails = 1"
    by blast
  moreover from t have "written Stderr (trace (final host_query_fails)) =
     [''Error checking /dev/kvm for 32-bit EL1 support: Inappropriate ioctl for device''
        @ [CHR 0x0A]]"
    by (simp add: host_defs errno_after_def query_diag_def messages_def)
  moreover from t have "closed_fds (trace (final host_query_fails)) = [3]"
    by (simp add: host_defs)
  ultimately show ?thesis
    using h1 h2 by blast
qed

section \<open>The device handle\<close>

text \<open>
  C4. On a run where the open succeeded, the descriptor it returned is closed exactly
  once, as the last thing the program does, after the capability query and whatever that
  query returned. On a run where the open failed, nothing is closed.
\<close>

theorem handle_released_once:
  "(if open_ret w <s 0 then closed_fds (trace (final w)) = []
    else closed_fds (trace (final w)) = [open_ret w] \<and>
         last (trace (final w)) = Close_call (open_ret w) \<and>
         Ioctl_call (open_ret w) KVM_CHECK_EXTENSION KVM_CAP_ARM_EL1_32BIT
           \<in> set (butlast (trace (final w))) \<and>
         closed_fds (butlast (trace (final w))) = [])"
  by (simp add: trace_cases)

theorem handle_released_once_witness:
  "closed_fds (trace (final host_supported)) = [3] \<and>
   closed_fds (trace (final host_query_fails)) = [3] \<and>
   closed_fds (trace (final host_no_device)) = []"
proof -
  have "\<not> open_ret host_supported <s 0" and "open_ret host_supported = 3"
    by (simp_all add: host_defs word_sless_alt)
  with handle_released_once [of host_supported]
  have a: "closed_fds (trace (final host_supported)) = [3]"
    by simp
  have "\<not> open_ret host_query_fails <s 0" and "open_ret host_query_fails = 3"
    by (simp_all add: host_defs word_sless_alt)
  with handle_released_once [of host_query_fails]
  have b: "closed_fds (trace (final host_query_fails)) = [3]"
    by simp
  have "open_ret host_no_device <s 0"
    by (simp add: host_defs word_sless_alt)
  with handle_released_once [of host_no_device]
  have c: "closed_fds (trace (final host_no_device)) = []"
    by simp
  from a b c show ?thesis
    by blast
qed

section \<open>The three kinds of exit status\<close>

text \<open>
  C5. On every run the exit status is of exactly one of three kinds: it is 0 only when the
  query succeeded and reported the capability (a positive result); it is 1 only when the
  query reported 0 or failed; it is negative, the negation of an error number, only when
  the device could not be opened.
\<close>

theorem exit_status_three_cases:
  assumes "posix_os w"
  shows "(exit_status w = 0 \<longleftrightarrow> \<not> open_ret w <s 0 \<and> 0 <s ioctl_ret w) \<and>
         (exit_status w = 1 \<longleftrightarrow>
            \<not> open_ret w <s 0 \<and> (ioctl_ret w = 0 \<or> ioctl_ret w <s 0)) \<and>
         (exit_status w <s 0 \<longleftrightarrow> open_ret w <s 0) \<and>
         (open_ret w <s 0 \<longrightarrow>
            exit_status w = - errno (final w) \<and> error_number (errno (final w))) \<and>
         (exit_status w = 0 \<or> exit_status w = 1 \<or> exit_status w <s 0)"
proof (cases "open_ret w <s 0")
  case True
  let ?e = "errno_after (perror_errno w) (errno_after (open_errno w) 0)"
  have st: "exit_status w = - ?e"
    using True by (rule exit_open_failed)
  have er: "errno (final w) = ?e"
    using True by (rule errno_open_failed)
  have en: "error_number ?e"
    using assms True by (rule posix_open_errno)
  then have neg: "- ?e <s 0"
    by (rule neg_error_number)
  from neg have "- ?e \<noteq> 0" and "- ?e \<noteq> 1"
    by (rule negative_not_zero, rule negative_not_one)
  with True st er en neg show ?thesis
    by simp
next
  case False
  show ?thesis
  proof (cases "ioctl_ret w <s 0")
    case True
    with False have "exit_status w = 1"
      by (rule exit_query_failed)
    moreover from True have "\<not> 0 <s ioctl_ret w"
      by (simp add: positive_iff)
    ultimately show ?thesis
      using False True by (simp add: word_sless_alt)
  next
    case answered: False
    with \<open>\<not> open_ret w <s 0\<close> have "exit_status w = c_not (ioctl_ret w)"
      by (rule exit_query_answered)
    then show ?thesis
      using \<open>\<not> open_ret w <s 0\<close> answered
      by (simp add: c_not_eq_0 c_not_eq_1 c_not_not_negative positive_iff)
  qed
qed

theorem exit_status_three_cases_witness:
  "posix_os host_supported \<and> exit_status host_supported = 0 \<and>
   posix_os host_unsupported \<and> exit_status host_unsupported = 1 \<and>
   posix_os host_query_fails \<and> exit_status host_query_fails = 1 \<and>
   posix_os host_no_device \<and> open_ret host_no_device <s 0 \<and>
   exit_status host_no_device <s 0 \<and>
   exit_status host_no_device = - errno (final host_no_device)"
proof -
  have p: "posix_os host_supported" "posix_os host_unsupported"
    "posix_os host_query_fails" "posix_os host_no_device"
    by (simp_all add: host_defs posix_os_defs word_sless_alt)
  have a: "\<not> open_ret host_supported <s 0 \<and> 0 <s ioctl_ret host_supported"
    by (simp add: host_defs word_sless_alt)
  have b: "\<not> open_ret host_unsupported <s 0 \<and> ioctl_ret host_unsupported = 0"
    by (simp add: host_defs word_sless_alt)
  have c: "\<not> open_ret host_query_fails <s 0 \<and> ioctl_ret host_query_fails <s 0"
    by (simp add: host_defs word_sless_alt)
  have d: "open_ret host_no_device <s 0"
    by (simp add: host_defs word_sless_alt)
  from exit_status_three_cases [OF p(1)] a have "exit_status host_supported = 0"
    by blast
  moreover from exit_status_three_cases [OF p(2)] b have "exit_status host_unsupported = 1"
    by blast
  moreover from exit_status_three_cases [OF p(3)] c have "exit_status host_query_fails = 1"
    by blast
  moreover from exit_status_three_cases [OF p(4)] d
  have "exit_status host_no_device <s 0 \<and>
        exit_status host_no_device = - errno (final host_no_device)"
    by blast
  ultimately show ?thesis
    using p d by blast
qed

text \<open>
  C6. Take two runs on which the open succeeds, one where the query returns 0 and one
  where it returns a negative value. Both return 1. The first writes nothing; the second
  writes one diagnostic to standard error; apart from that write they make the same calls,
  each on its own descriptor.
\<close>

theorem unsupported_and_failed_query_coalesce:
  assumes "\<not> open_ret w1 <s 0" and "ioctl_ret w1 = 0"
    and "\<not> open_ret w2 <s 0" and "ioctl_ret w2 <s 0"
  shows "exit_status w1 = 1 \<and> exit_status w2 = 1 \<and>
         written Stderr (trace (final w1)) = [] \<and>
         written Stderr (trace (final w2)) =
           [query_diag w2 (errno_after (ioctl_errno w2) (errno_after (open_errno w2) 0))] \<and>
         written Stdout (trace (final w1)) = [] \<and>
         written Stdout (trace (final w2)) = [] \<and>
         calls (trace (final w1)) =
           [Open_call ''/dev/kvm'' O_RDWR,
            Ioctl_call (open_ret w1) KVM_CHECK_EXTENSION KVM_CAP_ARM_EL1_32BIT,
            Close_call (open_ret w1)] \<and>
         calls (trace (final w2)) =
           [Open_call ''/dev/kvm'' O_RDWR,
            Ioctl_call (open_ret w2) KVM_CHECK_EXTENSION KVM_CAP_ARM_EL1_32BIT,
            Close_call (open_ret w2)]"
proof -
  from assms(2) have ok: "\<not> ioctl_ret w1 <s 0"
    by (simp add: word_sless_alt)
  have "exit_status w1 = c_not (ioctl_ret w1)"
    using assms(1) ok by (rule exit_query_answered)
  with assms(2) have e1: "exit_status w1 = 1"
    by (simp add: c_not_def)
  have e2: "exit_status w2 = 1"
    using assms(3,4) by (rule exit_query_failed)
  have t1: "trace (final w1) =
     [Open_call ''/dev/kvm'' O_RDWR,
      Ioctl_call (open_ret w1) KVM_CHECK_EXTENSION KVM_CAP_ARM_EL1_32BIT,
      Close_call (open_ret w1)]"
    using assms(1) ok by (rule trace_query_answered)
  have t2: "trace (final w2) =
     [Open_call ''/dev/kvm'' O_RDWR,
      Ioctl_call (open_ret w2) KVM_CHECK_EXTENSION KVM_CAP_ARM_EL1_32BIT,
      Output Stderr
        (query_diag w2 (errno_after (ioctl_errno w2) (errno_after (open_errno w2) 0))),
      Close_call (open_ret w2)]"
    using assms(3,4) by (rule trace_query_failed)
  show ?thesis
    by (simp add: e1 e2 t1 t2 calls_def)
qed

theorem unsupported_and_failed_query_coalesce_witness:
  "\<not> open_ret host_unsupported <s 0 \<and> ioctl_ret host_unsupported = 0 \<and>
   \<not> open_ret host_query_fails <s 0 \<and> ioctl_ret host_query_fails <s 0 \<and>
   exit_status host_unsupported = exit_status host_query_fails \<and>
   calls (trace (final host_unsupported)) = calls (trace (final host_query_fails)) \<and>
   written Stderr (trace (final host_unsupported)) = [] \<and>
   written Stderr (trace (final host_query_fails)) \<noteq> []"
proof -
  have h1: "\<not> open_ret host_unsupported <s 0" and h2: "ioctl_ret host_unsupported = 0"
    and h3: "\<not> open_ret host_query_fails <s 0" and h4: "ioctl_ret host_query_fails <s 0"
    by (simp_all add: host_defs word_sless_alt)
  note t = unsupported_and_failed_query_coalesce [OF h1 h2 h3 h4]
  from t have "exit_status host_unsupported = exit_status host_query_fails"
    by simp
  moreover from t
  have "calls (trace (final host_unsupported)) = calls (trace (final host_query_fails))"
    by (simp add: host_defs)
  moreover from t have "written Stderr (trace (final host_unsupported)) = []"
    by blast
  moreover from t have "written Stderr (trace (final host_query_fails)) \<noteq> []"
    by simp
  ultimately show ?thesis
    using h1 h2 h3 h4 by blast
qed

section \<open>Output and the result of close\<close>

text \<open>
  C7. The program writes to standard error exactly on the two failure paths (the open
  failed, or the open succeeded and the query failed), one diagnostic each; when the open
  and the query both succeed it writes nothing at all; it never writes to standard output.
\<close>

theorem diagnostics_only_on_failure:
  "(written Stderr (trace (final w)) \<noteq> [] \<longleftrightarrow>
      open_ret w <s 0 \<or> (\<not> open_ret w <s 0 \<and> ioctl_ret w <s 0)) \<and>
   (\<not> open_ret w <s 0 \<and> \<not> ioctl_ret w <s 0 \<longrightarrow>
      filter is_output (trace (final w)) = []) \<and>
   written Stdout (trace (final w)) = [] \<and>
   filter is_output (trace (final w)) =
     (if open_ret w <s 0 then
        [Output Stderr (open_diag w (errno_after (open_errno w) 0))]
      else if ioctl_ret w <s 0 then
        [Output Stderr
           (query_diag w (errno_after (ioctl_errno w) (errno_after (open_errno w) 0)))]
      else [])"
  by (simp add: trace_cases)

theorem diagnostics_only_on_failure_witness:
  "\<not> open_ret host_supported <s 0 \<and> \<not> ioctl_ret host_supported <s 0 \<and>
   filter is_output (trace (final host_supported)) = [] \<and>
   written Stderr (trace (final host_no_device)) \<noteq> [] \<and>
   written Stderr (trace (final host_query_fails)) \<noteq> [] \<and>
   written Stdout (trace (final host_no_device)) = [] \<and>
   written Stdout (trace (final host_query_fails)) = []"
proof -
  have a: "\<not> open_ret host_supported <s 0 \<and> \<not> ioctl_ret host_supported <s 0"
    by (simp add: host_defs word_sless_alt)
  have b: "open_ret host_no_device <s 0"
    by (simp add: host_defs word_sless_alt)
  have c: "\<not> open_ret host_query_fails <s 0 \<and> ioctl_ret host_query_fails <s 0"
    by (simp add: host_defs word_sless_alt)
  from diagnostics_only_on_failure [of host_supported] a
  have "filter is_output (trace (final host_supported)) = []"
    by blast
  moreover from diagnostics_only_on_failure [of host_no_device] b
  have "written Stderr (trace (final host_no_device)) \<noteq> [] \<and>
        written Stdout (trace (final host_no_device)) = []"
    by blast
  moreover from diagnostics_only_on_failure [of host_query_fails] c
  have "written Stderr (trace (final host_query_fails)) \<noteq> [] \<and>
        written Stdout (trace (final host_query_fails)) = []"
    by blast
  ultimately show ?thesis
    using a by blast
qed

text \<open>
  C10. What \<open>close\<close> returns, and what it stores in \<open>errno\<close>, changes neither the exit
  status nor anything the program does or writes: a failed close is not reported.
\<close>

theorem close_result_discarded:
  "exit_status (w\<lparr>close_ret := r, close_errno := eo\<rparr>) = exit_status w \<and>
   trace (final (w\<lparr>close_ret := r, close_errno := eo\<rparr>)) = trace (final w) \<and>
   written Stderr (trace (final (w\<lparr>close_ret := r, close_errno := eo\<rparr>))) =
     written Stderr (trace (final w))"
proof -
  have "exit_status (w\<lparr>close_ret := r, close_errno := eo\<rparr>) = exit_status w"
    by (simp add: exit_status_cases)
  moreover have "trace (final (w\<lparr>close_ret := r, close_errno := eo\<rparr>)) = trace (final w)"
    by (simp add: trace_cases open_diag_def query_diag_def)
  ultimately show ?thesis
    by simp
qed

theorem close_result_discarded_witness:
  "exit_status (host_supported\<lparr>close_ret := - 1, close_errno := Some 9\<rparr>) = 0 \<and>
   written Stderr (trace (final (host_supported\<lparr>close_ret := - 1, close_errno := Some 9\<rparr>)))
     = []"
proof -
  have ok: "\<not> open_ret host_supported <s 0" "\<not> ioctl_ret host_supported <s 0"
    by (simp_all add: host_defs word_sless_alt)
  then have "exit_status host_supported = c_not (ioctl_ret host_supported)"
    by (rule exit_query_answered)
  then have e: "exit_status host_supported = 0"
    by (simp add: host_defs c_not_def)
  from ok have "trace (final host_supported) =
     [Open_call ''/dev/kvm'' O_RDWR,
      Ioctl_call (open_ret host_supported) KVM_CHECK_EXTENSION KVM_CAP_ARM_EL1_32BIT,
      Close_call (open_ret host_supported)]"
    by (rule trace_query_answered)
  then have o: "written Stderr (trace (final host_supported)) = []"
    by simp
  from close_result_discarded [where w = host_supported and r = "- 1" and eo = "Some 9"] e o
  show ?thesis
    by simp
qed

end
